theory Spec2Isabelle
  imports Complex_Main "HOL-Library.Sublist" "HOL-Library.Char_ord" "HOL-Library.List_Lexorder"
    "HOL-Library.Product_Lexorder"
begin

section \<open>The employee table of analysis.py\<close>

text \<open>
  The dashboard script \<^verbatim>\<open>analysis.py\<close> reads one table with pandas and derives
  everything it shows from it. A row of the table is a record with the columns the script
  reads by name. A cell read from the file may be missing (the NaN of pandas), written
  \<open>None\<close>. The years of experience and the salary are numbers, which pandas holds as
  integers or as floats; they are real numbers here. The numeric attrition is the column
  the loader computes. The field \<open>extra\<close> holds the cells of the further numeric columns
  that a file may have, by the name of the column.
\<close>

record employee =
  EmployeeID :: int
  Department :: "string option"
  JobRole :: "string option"
  City :: "string option"
  Gender :: "string option"
  YearsOfExperience :: "real option"
  SalaryINR :: "real option"
  Attrition :: "string option"
  AttritionNumeric :: int
  extra :: "string \<Rightarrow> real option"

text \<open>
  The type that pandas gives to a column. The numeric types, those that
  \<^verbatim>\<open>np.number\<close> covers, are the integers and the floats.
\<close>

datatype dtype = Int64 | Float64 | Bool | Object

definition is_number :: "dtype \<Rightarrow> bool" where
  "is_number d = (d = Int64 \<or> d = Float64)"

text \<open>
  A data frame: the names of its columns, in order, the type of each column, and its
  rows. A column that is not among \<open>columns\<close> is absent from the frame: reading it by name
  raises KeyError, and the field of that name in a row stands for nothing. The types of the
  columns of the data model are meant to agree with the fields of the rows: text is
  \<open>Object\<close> and a number is \<open>Int64\<close> or \<open>Float64\<close>.
\<close>

record frame =
  columns :: "string list"
  dtypes :: "string \<Rightarrow> dtype"
  rows :: "employee list"

text \<open>The exceptions that the script can meet.\<close>

datatype exn =
  FileNotFoundError
  | ParserError
  | KeyError string
  | ValueError
  | ZeroDivisionError
  | StreamlitAPIException

text \<open>A scalar that pandas returns from a reduction: a value, or NaN on nothing to reduce.\<close>

datatype 'a scalar = NaN | Val 'a

section \<open>Loading (lines 96 to 113)\<close>

text \<open>What the script shows with \<^verbatim>\<open>st.error\<close>, \<^verbatim>\<open>st.info\<close> and \<^verbatim>\<open>st.warning\<close>.\<close>

datatype message = Error string | Info string | Warning string

text \<open>
  \<^verbatim>\<open>df[name]\<close>: the cells of a column, or KeyError when the frame has no column of
  that name.
\<close>

definition getitem :: "frame \<Rightarrow> string \<Rightarrow> (employee \<Rightarrow> 'a) \<Rightarrow> exn + 'a list" where
  "getitem df name field =
     (if name \<in> set (columns df) then Inr (map field (rows df)) else Inl (KeyError name))"

text \<open>The function the loader applies to each attrition flag: \<^verbatim>\<open>1 if x == 'Yes' else 0\<close>.\<close>

definition attrition_numeric :: "string option \<Rightarrow> int" where
  "attrition_numeric x = (if x = Some ''Yes'' then 1 else 0)"

text \<open>
  \<^verbatim>\<open>df['AttritionNumeric'] = series\<close>: the column is written in place when the frame
  has it and added as the last column otherwise. The series is the result of
  \<^verbatim>\<open>apply\<close>: a column of integers, and on a frame without rows an empty series of the
  type of the attrition column.
\<close>

definition set_AttritionNumeric :: "frame \<Rightarrow> int list \<Rightarrow> frame" where
  "set_AttritionNumeric df series =
     \<lparr>columns = (if ''AttritionNumeric'' \<in> set (columns df) then columns df
                 else columns df @ [''AttritionNumeric'']),
      dtypes = (dtypes df)
                 (''AttritionNumeric'' := (if rows df = [] then dtypes df ''Attrition'' else Int64)),
      rows = map (\<lambda>(r, v). r\<lparr>AttritionNumeric := v\<rparr>) (zip (rows df) series)\<rparr>"

text \<open>
  \<open>load_data\<close>. The parameter \<open>read_csv\<close> stands for \<^verbatim>\<open>pd.read_csv\<close> of pandas on the
  files of the machine: given a path it returns a frame or raises. The \<^verbatim>\<open>try\<close> of the
  loader catches FileNotFoundError only: it then shows two messages and returns None. Any
  other exception, of the parser or of reading the attrition column, leaves the function.
  The result is the messages shown and the value returned.
\<close>

definition load_data ::
  "(string \<Rightarrow> exn + frame) \<Rightarrow> string \<Rightarrow> exn + (message list \<times> frame option)" where
  "load_data read_csv file_path =
     (case read_csv file_path of
        Inl FileNotFoundError \<Rightarrow>
          Inr ([Error (''Error: The file '' @ [CHR 0x27] @ file_path @ [CHR 0x27] @
                       '' was not found.''),
                Info ''Please ensure the CSV file is in the same directory as the script.''],
               None)
      | Inl e \<Rightarrow> Inl e
      | Inr df \<Rightarrow>
          (case getitem df ''Attrition'' Attrition of
             Inl e \<Rightarrow> Inl e
           | Inr series \<Rightarrow> Inr ([], Some (set_AttritionNumeric df (map attrition_numeric series)))))"

text \<open>
  The start of the script, lines 109 to 113: it loads the fixed file and calls
  \<^verbatim>\<open>st.stop()\<close> when the loader returned None. An exception that left the loader ends
  the run; otherwise the script goes on with the frame.
\<close>

datatype startup = Stopped "message list" | Raised exn | Running frame

definition start :: "(string \<Rightarrow> exn + frame) \<Rightarrow> startup" where
  "start read_csv =
     (case load_data read_csv ''mock_imved_tech_data.csv'' of
        Inl e \<Rightarrow> Raised e
      | Inr (shown, None) \<Rightarrow> Stopped shown
      | Inr (shown, Some df) \<Rightarrow> Running df)"

text \<open>
  The columns the specification requires of the input file, under the names the script
  reads them by.
\<close>

definition required_columns :: "string list" where
  "required_columns =
     [''EmployeeID'', ''Department'', ''JobRole'', ''City'', ''Gender'',
      ''YearsOfExperience'', ''SalaryINR'', ''Attrition'']"

text \<open>
  From line 115 on the script reads the columns of the data model from the loaded table.
  The functions below are the script on the rows of a table that has them.
\<close>

section \<open>Filtering (lines 161 to 165)\<close>

text \<open>
  \<^verbatim>\<open>Series.isin(values)\<close>: one boolean for each cell, true when the cell is among
  the values. A missing cell is among the values when a missing value is one of them.
\<close>

definition isin :: "'a list \<Rightarrow> 'a list \<Rightarrow> bool list" where
  "isin series vals = map (\<lambda>v. v \<in> set vals) series"

text \<open>
  \<^verbatim>\<open>Series.between(left, right)\<close>, both ends included; a comparison with a missing
  cell is false.
\<close>

definition between :: "real option list \<Rightarrow> int \<Rightarrow> int \<Rightarrow> bool list" where
  "between series left right =
     map (\<lambda>c. case c of None \<Rightarrow> False
              | Some x \<Rightarrow> real_of_int left \<le> x \<and> x \<le> real_of_int right) series"

text \<open>The operator \<^verbatim>\<open>&\<close> of two boolean series, cell by cell.\<close>

definition series_and :: "bool list \<Rightarrow> bool list \<Rightarrow> bool list" where
  "series_and a b = map (\<lambda>(x, y). x \<and> y) (zip a b)"

text \<open>\<^verbatim>\<open>df[mask]\<close>: the rows whose mask is true, in the order of the table.\<close>

definition boolean_index :: "'a list \<Rightarrow> bool list \<Rightarrow> 'a list" where
  "boolean_index df bs = map fst (filter snd (zip df bs))"

text \<open>
  The filtered view of the table \<open>df\<close> for the selected departments, the selected cities
  and the selected range of experience, as the script builds it: three masks over the
  columns, joined by \<^verbatim>\<open>&\<close>.
\<close>

definition filtered_df ::
  "employee list \<Rightarrow> string option list \<Rightarrow> string option list \<Rightarrow> int \<times> int \<Rightarrow> employee list" where
  "filtered_df df selected_departments selected_cities selected_exp =
     boolean_index df
       (series_and
          (series_and (isin (map Department df) selected_departments)
                      (isin (map City df) selected_cities))
          (between (map YearsOfExperience df) (fst selected_exp) (snd selected_exp)))"

text \<open>
  The three predicates of the Filtered View in the words of the specification: the
  department is selected, the city is selected, and the years of experience lie between
  \<open>lo\<close> and \<open>hi\<close>.
\<close>

definition in_view ::
  "string option list \<Rightarrow> string option list \<Rightarrow> int \<Rightarrow> int \<Rightarrow> employee \<Rightarrow> bool" where
  "in_view deps cities lo hi r =
     (Department r \<in> set deps \<and> City r \<in> set cities \<and>
      (\<exists>x. YearsOfExperience r = Some x \<and> real_of_int lo \<le> x \<and> x \<le> real_of_int hi))"

section \<open>The sidebar (lines 120 to 158)\<close>

text \<open>
  \<^verbatim>\<open>Series.unique().tolist()\<close>: the distinct values, a missing one included, in the
  order they first appear.
\<close>

fun unique :: "'a list \<Rightarrow> 'a list" where
  "unique [] = []"
| "unique (x # xs) = x # unique (filter (\<lambda>y. y \<noteq> x) xs)"

text \<open>The cells of a series that are not missing.\<close>

fun dropna :: "'a option list \<Rightarrow> 'a list" where
  "dropna [] = []"
| "dropna (None # cs) = dropna cs"
| "dropna (Some x # cs) = x # dropna cs"

text \<open>
  \<^verbatim>\<open>Series.min()\<close> and \<^verbatim>\<open>Series.max()\<close> skip the missing cells and are NaN when
  nothing is left.
\<close>

definition series_min :: "real option list \<Rightarrow> real scalar" where
  "series_min series = (case dropna series of [] \<Rightarrow> NaN | x # xs \<Rightarrow> Val (fold min xs x))"

definition series_max :: "real option list \<Rightarrow> real scalar" where
  "series_max series = (case dropna series of [] \<Rightarrow> NaN | x # xs \<Rightarrow> Val (fold max xs x))"

text \<open>
  \<^verbatim>\<open>int(x)\<close> of Python on a number of pandas: ValueError on NaN, and otherwise the
  number without its fraction, rounded towards zero.
\<close>

definition py_int :: "real scalar \<Rightarrow> exn + int" where
  "py_int x =
     (case x of NaN \<Rightarrow> Inl ValueError | Val v \<Rightarrow> Inr (if v < 0 then \<lceil>v\<rceil> else \<lfloor>v\<rfloor>))"

text \<open>
  The pair \<^verbatim>\<open>(int(df['YearsOfExperience'].min()), int(df['YearsOfExperience'].max()))\<close>
  of lines 127, 136 and 153.
\<close>

definition exp_range :: "employee list \<Rightarrow> exn + (int \<times> int)" where
  "exp_range df =
     (case py_int (series_min (map YearsOfExperience df)) of
        Inl e \<Rightarrow> Inl e
      | Inr lo \<Rightarrow>
          (case py_int (series_max (map YearsOfExperience df)) of
             Inl e \<Rightarrow> Inl e
           | Inr hi \<Rightarrow> Inr (lo, hi)))"

text \<open>
  The three keys of \<^verbatim>\<open>st.session_state\<close> that the script uses; \<open>None\<close> is a key that is
  not in the state.
\<close>

record session_state =
  selected_departments :: "string option list option"
  selected_cities :: "string option list option"
  selected_exp :: "(int \<times> int) option"

text \<open>
  The handler of the button "Reset All Filters", lines 125 to 127: it writes the three
  keys, whatever they held.
\<close>

definition reset_all_filters :: "employee list \<Rightarrow> session_state \<Rightarrow> exn + session_state" where
  "reset_all_filters df st =
     (case exp_range df of
        Inl e \<Rightarrow> Inl e
      | Inr e \<Rightarrow>
          Inr (st\<lparr>selected_departments := Some (unique (map Department df)),
                  selected_cities := Some (unique (map City df)),
                  selected_exp := Some e\<rparr>))"

text \<open>
  The integers that Streamlit accepts as a bound of a slider: those that JavaScript holds
  exactly.
\<close>

definition js_safe :: "int \<Rightarrow> bool" where
  "js_safe n = (- (2 ^ 53 - 1) \<le> n \<and> n \<le> 2 ^ 53 - 1)"

text \<open>
  \<^verbatim>\<open>st.slider(label, min_value, max_value, key=...)\<close> on a key that holds a pair:
  Streamlit raises StreamlitAPIException unless the least value is below the greatest and
  both are integers that JavaScript holds exactly; otherwise the slider returns the value
  of its key.
\<close>

definition slider :: "int \<Rightarrow> int \<Rightarrow> int \<times> int \<Rightarrow> exn + (int \<times> int)" where
  "slider min_value max_value state_value =
     (if min_value < max_value \<and> js_safe min_value \<and> js_safe max_value
      then Inr state_value else Inl StreamlitAPIException)"

text \<open>
  The rest of the sidebar in one run of the script, lines 131 to 158: a key that is not
  in the state is set to its default, the two selections of departments and cities return
  the values of their keys, the bounds of the slider are computed, and the slider returns
  the value of its key.
\<close>

definition sidebar ::
  "employee list \<Rightarrow> session_state \<Rightarrow>
     exn + (string option list \<times> string option list \<times> (int \<times> int))" where
  "sidebar df st =
     (let deps = (case selected_departments st of
                    None \<Rightarrow> unique (map Department df) | Some d \<Rightarrow> d);
          cities = (case selected_cities st of
                      None \<Rightarrow> unique (map City df) | Some c \<Rightarrow> c)
      in case (case selected_exp st of None \<Rightarrow> exp_range df | Some e \<Rightarrow> Inr e) of
           Inl e \<Rightarrow> Inl e
         | Inr e \<Rightarrow>
             (case exp_range df of
                Inl e' \<Rightarrow> Inl e'
              | Inr (min_exp, max_exp) \<Rightarrow>
                  (case slider min_exp max_exp e of
                     Inl e' \<Rightarrow> Inl e'
                   | Inr chosen \<Rightarrow> Inr (deps, cities, chosen))))"

text \<open>
  A click on the button: the handler, then \<^verbatim>\<open>st.experimental_rerun()\<close> runs the script
  again on the new state, in which the button is not pressed. The result is the Filtered
  View of that run.
\<close>

definition reset_view :: "employee list \<Rightarrow> session_state \<Rightarrow> exn + employee list" where
  "reset_view df st =
     (case reset_all_filters df st of
        Inl e \<Rightarrow> Inl e
      | Inr st' \<Rightarrow>
          (case sidebar df st' of
             Inl e \<Rightarrow> Inl e
           | Inr (deps, cities, e) \<Rightarrow> Inr (filtered_df df deps cities e)))"

section \<open>Key figures (lines 169 to 172)\<close>

text \<open>\<^verbatim>\<open>filtered_df.shape[0]\<close>: the number of rows of the view.\<close>

definition total_employees :: "employee list \<Rightarrow> int" where
  "total_employees view = int (length view)"

text \<open>\<^verbatim>\<open>filtered_df[filtered_df['Attrition'] == 'Yes'].shape[0]\<close>.\<close>

definition attrition_count :: "employee list \<Rightarrow> int" where
  "attrition_count view =
     int (length (boolean_index view (map (\<lambda>a. a = Some ''Yes'') (map Attrition view))))"

text \<open>
  The division \<^verbatim>\<open>/\<close> of two Python integers: ZeroDivisionError on a zero divisor. The
  quotient is an exact real number here, where Python rounds to a double.
\<close>

definition py_truediv :: "int \<Rightarrow> int \<Rightarrow> exn + real" where
  "py_truediv a b = (if b = 0 then Inl ZeroDivisionError else Inr (real_of_int a / real_of_int b))"

text \<open>
  \<^verbatim>\<open>(attrition_count / total_employees) * 100 if total_employees > 0 else 0\<close>
\<close>

definition attrition_rate :: "employee list \<Rightarrow> exn + real" where
  "attrition_rate view =
     (if total_employees view > 0
      then (case py_truediv (attrition_count view) (total_employees view) of
              Inl e \<Rightarrow> Inl e
            | Inr q \<Rightarrow> Inr (q * 100))
      else Inr 0)"




section \<open>Aggregations for the charts (lines 199 to 270)\<close>

text \<open>
  The keys of \<^verbatim>\<open>groupby(['Department', 'Attrition'])\<close>, one for each row that has both:
  pandas leaves a row in which one of the two keys is missing out of every group.
\<close>

definition group_keys :: "employee list \<Rightarrow> (string \<times> string) list" where
  "group_keys view =
     dropna (map (\<lambda>r. case Department r of
                       None \<Rightarrow> None
                     | Some d \<Rightarrow> (case Attrition r of None \<Rightarrow> None | Some a \<Rightarrow> Some (d, a))) view)"

text \<open>
  \<^verbatim>\<open>.size().reset_index(name='count')\<close>: one line for each key that occurs, in the
  order of the keys, with the number of rows that have it.
\<close>

definition groupby_size :: "('k::linorder) list \<Rightarrow> ('k \<times> nat) list" where
  "groupby_size keys = map (\<lambda>k. (k, count_list keys k)) (sort (remdups keys))"

definition attrition_dept :: "employee list \<Rightarrow> ((string \<times> string) \<times> nat) list" where
  "attrition_dept view = groupby_size (group_keys view)"








section \<open>Correlation (lines 277 to 296)\<close>

text \<open>
  The names of the columns of \<^verbatim>\<open>numerical_cols\<close>, line 277:
  \<^verbatim>\<open>select_dtypes(include=np.number)\<close> keeps the columns of a numeric type, in their
  order.
\<close>

definition numerical_cols :: "frame \<Rightarrow> string list" where
  "numerical_cols fv = filter (\<lambda>c. is_number (dtypes fv c)) (columns fv)"

text \<open>The default of the selection of features, line 283.\<close>

definition default_cols :: "string list \<Rightarrow> string list" where
  "default_cols options = filter (\<lambda>col. col \<notin> set [''EmployeeID'', ''AttritionNumeric'']) options"

text \<open>
  \<^verbatim>\<open>st.multiselect(label, options=..., default=...)\<close> without a key: the default
  while the user has not touched the selection (\<open>None\<close>), and what the user has picked
  otherwise, which the widget takes from its options.
\<close>

definition multiselect :: "string list \<Rightarrow> string list \<Rightarrow> string list option \<Rightarrow> string list" where
  "multiselect options default_value picked =
     (case picked of None \<Rightarrow> default_value | Some p \<Rightarrow> filter (\<lambda>c. c \<in> set options) p)"

text \<open>
  The cell of a row in a numeric column, as a number: the numeric fields of the data
  model under their names, and the further numeric columns of the file. A column of text
  has no numbers.
\<close>

definition number :: "employee \<Rightarrow> string \<Rightarrow> real option" where
  "number r c =
     (if c = ''EmployeeID'' then Some (real_of_int (EmployeeID r))
      else if c = ''YearsOfExperience'' then YearsOfExperience r
      else if c = ''SalaryINR'' then SalaryINR r
      else if c = ''AttritionNumeric'' then Some (real_of_int (AttritionNumeric r))
      else if c \<in> set [''Department'', ''JobRole'', ''City'', ''Gender'', ''Attrition''] then None
      else extra r c)"

definition numeric_column :: "employee list \<Rightarrow> string \<Rightarrow> real option list" where
  "numeric_column view c = map (\<lambda>r. number r c) view"

text \<open>The pairs of cells of two columns, row by row, in which neither cell is missing.\<close>

fun complete_pairs :: "real option list \<Rightarrow> real option list \<Rightarrow> (real \<times> real) list" where
  "complete_pairs (Some x # xs) (Some y # ys) = (x, y) # complete_pairs xs ys"
| "complete_pairs (x # xs) (y # ys) = complete_pairs xs ys"
| "complete_pairs xs ys = []"

definition mean :: "real list \<Rightarrow> real" where
  "mean xs = sum_list xs / real (length xs)"

text \<open>
  Modelled from the spec: the pairwise Pearson correlation of two columns, which the
  script takes from \<^verbatim>\<open>DataFrame.corr()\<close> of pandas and which is not in the source. Over
  the rows in which both columns have a value, it is the sum of the products of the
  deviations from the two means, divided by the square root of the product of the two sums
  of squared deviations; it is NaN when that divisor is 0, which is so when there is no
  such row, and when one of the columns takes a single value on them. The numbers are
  exact real numbers here, where pandas rounds to doubles.
\<close>

definition pearson :: "real option list \<Rightarrow> real option list \<Rightarrow> real scalar" where
  "pearson xs ys =
     (let ps = complete_pairs xs ys;
          mx = mean (map fst ps);
          my = mean (map snd ps);
          sxx = sum_list (map (\<lambda>(x, y). (x - mx) ^ 2) ps);
          syy = sum_list (map (\<lambda>(x, y). (y - my) ^ 2) ps);
          sxy = sum_list (map (\<lambda>(x, y). (x - mx) * (y - my)) ps)
      in if sxx * syy = 0 then NaN else Val (sxy / sqrt (sxx * syy)))"

text \<open>
  \<^verbatim>\<open>numerical_cols[selected_cols].corr()\<close>: the matrix of the correlations of the
  selected columns of the view, one line for each selected column.
\<close>

definition corr :: "employee list \<Rightarrow> string list \<Rightarrow> real scalar list list" where
  "corr view selected_cols =
     map (\<lambda>a. map (\<lambda>b. pearson (numeric_column view a) (numeric_column view b)) selected_cols)
       selected_cols"

text \<open>
  The panel of the correlation, lines 277 to 296, on the filtered frame \<open>fv\<close>: the heatmap
  of the matrix, labelled with the selected columns, or the warning when nothing is
  selected.
\<close>

datatype correlation_panel =
  Heatmap "string list" "real scalar list list"
  | Correlation_warning message

definition correlation :: "frame \<Rightarrow> string list option \<Rightarrow> correlation_panel" where
  "correlation fv picked =
     (let selected_cols =
            multiselect (numerical_cols fv) (default_cols (numerical_cols fv)) picked
      in if selected_cols \<noteq> [] then Heatmap selected_cols (corr (rows fv) selected_cols)
         else Correlation_warning
                (Warning ''Please select at least one feature to display the heatmap.''))"

section \<open>The page (lines 167 to 316)\<close>



section \<open>Example tables\<close>

text \<open>
  Three rows for the concrete instances below; the third has no attrition flag. Each has
  an age, a numeric column that is not in the data model.
\<close>

definition age :: "real \<Rightarrow> string \<Rightarrow> real option" where
  "age a c = (if c = ''Age'' then Some a else None)"

definition emp1 :: employee where
  "emp1 = \<lparr>EmployeeID = 1, Department = Some ''Technology'', JobRole = Some ''Engineer'',
     City = Some ''Pune'', Gender = Some ''Female'', YearsOfExperience = Some 3,
     SalaryINR = Some 900000, Attrition = Some ''No'', AttritionNumeric = 0, extra = age 28\<rparr>"

definition emp2 :: employee where
  "emp2 = \<lparr>EmployeeID = 2, Department = Some ''Sales'', JobRole = Some ''Manager'',
     City = Some ''Delhi'', Gender = Some ''Male'', YearsOfExperience = Some 7,
     SalaryINR = Some 1200000, Attrition = Some ''Yes'', AttritionNumeric = 1, extra = age 41\<rparr>"

definition emp3 :: employee where
  "emp3 = \<lparr>EmployeeID = 3, Department = Some ''Sales'', JobRole = Some ''Analyst'',
     City = Some ''Mumbai'', Gender = Some ''Male'', YearsOfExperience = Some 5,
     SalaryINR = Some 700000, Attrition = None, AttritionNumeric = 0, extra = age 35\<rparr>"

text \<open>The types of the columns of a file that has the required columns and the ages.\<close>

definition example_dtypes :: "string \<Rightarrow> dtype" where
  "example_dtypes c =
     (if c \<in> set [''EmployeeID'', ''YearsOfExperience'', ''SalaryINR'', ''Age''] then Int64
      else Object)"

text \<open>The state of a session in which no key is set.\<close>

definition no_state :: session_state where
  "no_state = \<lparr>selected_departments = None, selected_cities = None, selected_exp = None\<rparr>"

text \<open>
  A parsed file with every required column but the department (the field of that name
  in its row stands for nothing), and a parsed file with all of them whose attrition flags
  are a text other than the two expected, \<^verbatim>\<open>Yes\<close>, and missing.
\<close>

definition file_without_department :: frame where
  "file_without_department =
     \<lparr>columns = [''EmployeeID'', ''JobRole'', ''City'', ''Gender'', ''YearsOfExperience'',
                 ''SalaryINR'', ''Attrition''],
      dtypes = example_dtypes,
      rows = [emp2\<lparr>Department := None\<rparr>]\<rparr>"

definition read_without_department :: "string \<Rightarrow> exn + frame" where
  "read_without_department file_path = Inr file_without_department"

definition example_file :: frame where
  "example_file =
     \<lparr>columns = required_columns @ [''Age''],
      dtypes = example_dtypes,
      rows = [emp1\<lparr>Attrition := Some ''yes''\<rparr>, emp2\<lparr>AttritionNumeric := 5\<rparr>, emp3]\<rparr>"

definition read_example :: "string \<Rightarrow> exn + frame" where
  "read_example file_path = Inr example_file"

text \<open>
  A loaded table of the three rows, and the frames of two of its Filtered Views: the whole
  table, which is the view of the default selection, and its rows of the department
  Technology.
\<close>

definition example_table :: frame where
  "example_table =
     \<lparr>columns = required_columns @ [''Age'', ''AttritionNumeric''],
      dtypes = example_dtypes(''AttritionNumeric'' := Int64),
      rows = [emp1, emp2, emp3]\<rparr>"

section \<open>Properties of the filter\<close>

lemma boolean_index_map:
  "boolean_index df (map P df) = filter P df"
  by (induction df) (simp_all add: boolean_index_def)

lemma series_and_map:
  "series_and (map P xs) (map Q xs) = map (\<lambda>x. P x \<and> Q x) xs"
  by (induction xs) (simp_all add: series_and_def)

lemma isin_column: "isin (map f df) vals = map (\<lambda>r. f r \<in> set vals) df"
  by (simp add: isin_def comp_def)

lemma between_column:
  "between (map f df) lo hi =
     map (\<lambda>r. \<exists>x. f r = Some x \<and> real_of_int lo \<le> x \<and> x \<le> real_of_int hi) df"
  by (auto simp: between_def split: option.splits)

lemma filtered_df_filter:
  "filtered_df df deps cities (lo, hi) = filter (in_view deps cities lo hi) df"
proof -
  have "in_view deps cities lo hi =
      (\<lambda>r. (Department r \<in> set deps \<and> City r \<in> set cities) \<and>
           (\<exists>x. YearsOfExperience r = Some x \<and> real_of_int lo \<le> x \<and> x \<le> real_of_int hi))"
    by (auto simp: in_view_def fun_eq_iff)
  then show ?thesis
    by (simp add: filtered_df_def isin_column between_column series_and_map
        boolean_index_map)
qed

text \<open>
  C1. For every selection of departments, cities and range of experience, the Filtered
  View holds exactly the rows of the full table that satisfy the three predicates
  together, in the order of the table: it is a sub-list of the table, every row in it
  satisfies all three, and a row of the table that satisfies all three is in it.
\<close>

theorem C1_filtered_view_conjunction:
  "filtered_df df deps cities (lo, hi) = filter (in_view deps cities lo hi) df \<and>
   subseq (filtered_df df deps cities (lo, hi)) df \<and>
   set (filtered_df df deps cities (lo, hi)) \<subseteq> set df \<and>
   (r \<in> set (filtered_df df deps cities (lo, hi)) \<longleftrightarrow>
      r \<in> set df \<and> Department r \<in> set deps \<and> City r \<in> set cities \<and>
      (\<exists>x. YearsOfExperience r = Some x \<and> real_of_int lo \<le> x \<and> x \<le> real_of_int hi))"
  by (auto simp: filtered_df_filter in_view_def)

section \<open>Reset\<close>

lemma set_unique: "set (unique xs) = set xs"
  by (induction xs rule: unique.induct) auto

lemma distinct_unique: "distinct (unique xs)"
  by (induction xs rule: unique.induct) (auto simp: set_unique)

lemma set_dropna: "set (dropna cs) = {x. Some x \<in> set cs}"
  by (induction cs rule: dropna.induct) auto





lemma series_min_NaN: "series_min s = NaN \<longleftrightarrow> dropna s = []"
  by (simp add: series_min_def split: list.splits)

lemma series_max_NaN: "series_max s = NaN \<longleftrightarrow> dropna s = []"
  by (simp add: series_max_def split: list.splits)


lemma exp_range_Inl:
  "exp_range df = Inl e \<longleftrightarrow> dropna (map YearsOfExperience df) = [] \<and> e = ValueError"
  by (auto simp: exp_range_def py_int_def series_min_def series_max_def split: list.splits)


text \<open>
  The view that follows a reset, whenever the range of the years exists: the slider
  refuses bounds that are equal or that JavaScript does not hold exactly, and otherwise
  the view holds the rows whose years lie between the truncated least and greatest years.
\<close>

lemma reset_view_range:
  assumes "exp_range df = Inr (lo, hi)"
  shows "reset_view df st =
     (if lo < hi \<and> js_safe lo \<and> js_safe hi
      then Inr (filter (\<lambda>r. case YearsOfExperience r of
                               None \<Rightarrow> False
                             | Some x \<Rightarrow> real_of_int lo \<le> x \<and> x \<le> real_of_int hi) df)
      else Inl StreamlitAPIException)"
proof -
  have "filtered_df df (unique (map Department df)) (unique (map City df)) (lo, hi) =
      filter (\<lambda>r. case YearsOfExperience r of
                     None \<Rightarrow> False
                   | Some x \<Rightarrow> real_of_int lo \<le> x \<and> x \<le> real_of_int hi) df"
    unfolding filtered_df_filter
    by (rule filter_cong) (auto simp: in_view_def set_unique split: option.splits)
  then show ?thesis
    using assms by (simp add: reset_view_def reset_all_filters_def sidebar_def slider_def)
qed




text \<open>
  The other hypotheses are needed as well. On a table whose years are all equal the slider
  raises; a row whose years have a fraction above the truncated maximum, or are missing,
  is not in the view that follows a reset; and a bound beyond \<open>2^53 - 1\<close> is refused by the
  slider.
\<close>

lemma reset_view_one_row: "reset_view [emp1] no_state = Inl StreamlitAPIException"
proof -
  have "exp_range [emp1] = Inr (3, 3)"
    by (simp add: exp_range_def series_min_def series_max_def py_int_def emp1_def)
  then show ?thesis by (simp add: reset_view_range)
qed

lemma reset_view_fraction:
  "reset_view [emp1, emp2\<lparr>YearsOfExperience := Some (15 / 2)\<rparr>] no_state = Inr [emp1]"
proof -
  have "exp_range [emp1, emp2\<lparr>YearsOfExperience := Some (15 / 2)\<rparr>] = Inr (3, 7)"
    by (simp add: exp_range_def series_min_def series_max_def py_int_def emp1_def emp2_def)
  then show ?thesis
    by (simp add: reset_view_range js_safe_def) (simp add: emp1_def emp2_def)
qed

lemma reset_view_missing_years:
  "reset_view [emp1, emp2, emp3\<lparr>YearsOfExperience := None\<rparr>] no_state = Inr [emp1, emp2]"
proof -
  have "exp_range [emp1, emp2, emp3\<lparr>YearsOfExperience := None\<rparr>] = Inr (3, 7)"
    by (simp add: exp_range_def series_min_def series_max_def py_int_def emp1_def emp2_def)
  then show ?thesis
    by (simp add: reset_view_range js_safe_def) (simp add: emp1_def emp2_def emp3_def)
qed

lemma reset_view_unsafe_bound:
  "reset_view [emp1, emp2\<lparr>YearsOfExperience := Some (2 ^ 53)\<rparr>] no_state =
     Inl StreamlitAPIException"
proof -
  have "exp_range [emp1, emp2\<lparr>YearsOfExperience := Some (2 ^ 53)\<rparr>] = Inr (3, 2 ^ 53)"
    by (simp add: exp_range_def series_min_def series_max_def py_int_def emp1_def emp2_def)
  then show ?thesis
    by (simp add: reset_view_range js_safe_def)
qed

section \<open>The attrition rate\<close>

lemma attrition_count_filter:
  "attrition_count view = int (length (filter (\<lambda>r. Attrition r = Some ''Yes'') view))"
proof -
  have "map (\<lambda>a. a = Some ''Yes'') (map Attrition view) = map (\<lambda>r. Attrition r = Some ''Yes'') view"
    by simp
  then show ?thesis
    unfolding attrition_count_def by (simp only: boolean_index_map)
qed

lemma attrition_rate_value:
  "attrition_rate view =
     Inr (if view = [] then 0
          else real (length (filter (\<lambda>r. Attrition r = Some ''Yes'') view)) /
               real (length view) * 100)"
  by (simp add: attrition_rate_def py_truediv_def total_employees_def attrition_count_filter)

text \<open>
  C3. For every Filtered View the attrition rate is computed without an exception; it is
  the number of rows whose attrition flag is \<^verbatim>\<open>Yes\<close> divided by the number of rows,
  times 100, when the view has a row, and 0 when it has none; it lies between 0 and 100;
  and it is 0 exactly when the view has no row or no row with the flag \<^verbatim>\<open>Yes\<close>.
\<close>

theorem C3_attrition_rate:
  "\<exists>x. attrition_rate view = Inr x \<and>
     x = (if view = [] then 0
          else real (length (filter (\<lambda>r. Attrition r = Some ''Yes'') view)) /
               real (length view) * 100) \<and>
     0 \<le> x \<and> x \<le> 100 \<and>
     (x = 0 \<longleftrightarrow> total_employees view = 0 \<or> attrition_count view = 0) \<and>
     total_employees view = int (length view) \<and>
     attrition_count view = int (length (filter (\<lambda>r. Attrition r = Some ''Yes'') view))"
proof -
  let ?c = "length (filter (\<lambda>r. Attrition r = Some ''Yes'') view)"
  let ?n = "length view"
  let ?x = "if view = [] then 0 else real ?c / real ?n * 100"
  have le: "?c \<le> ?n" by simp
  have "0 \<le> ?x" by simp
  moreover have "?x \<le> 100"
  proof (cases "view = []")
    case True
    then show ?thesis by simp
  next
    case False
    then have "0 < real ?n" by simp
    moreover have "real ?c \<le> real ?n" using le by simp
    ultimately have "real ?c / real ?n \<le> 1" by (simp add: divide_le_eq)
    then have "real ?c / real ?n * 100 \<le> 1 * 100"
      by (rule mult_right_mono) simp
    then show ?thesis using False by (simp del: times_divide_eq_left)
  qed
  moreover have "?x = 0 \<longleftrightarrow> total_employees view = 0 \<or> attrition_count view = 0"
    by (simp add: total_employees_def attrition_count_filter)
  ultimately show ?thesis
    by (simp only: attrition_rate_value attrition_count_filter total_employees_def) blast
qed

section \<open>The loader\<close>

lemma set_AttritionNumeric_rows:
  "rows (set_AttritionNumeric df (map attrition_numeric (map Attrition (rows df)))) =
     map (\<lambda>r. r\<lparr>AttritionNumeric := (if Attrition r = Some ''Yes'' then 1 else 0)\<rparr>) (rows df)"
  by (simp add: set_AttritionNumeric_def zip_map2 zip_same_conv_map attrition_numeric_def
      comp_def)

lemma set_AttritionNumeric_columns:
  "''AttritionNumeric'' \<notin> set (columns df) \<Longrightarrow>
   columns (set_AttritionNumeric df series) = columns df @ [''AttritionNumeric'']"
  by (simp add: set_AttritionNumeric_def)

lemma load_data_table:
  assumes "read_csv file_path = Inr df" and "''Attrition'' \<in> set (columns df)"
  shows "load_data read_csv file_path =
     Inr ([], Some (set_AttritionNumeric df (map attrition_numeric (map Attrition (rows df)))))"
  using assms by (simp add: load_data_def getitem_def)

text \<open>
  C10. On a file that parses and has the attrition column the loader returns a table and
  shows no message, whatever the attrition flags are: the table has the rows of the file,
  each with its numeric attrition set to 1 when its flag is the text \<^verbatim>\<open>Yes\<close> and to 0
  for every other flag, a missing one included.
\<close>

theorem C10_attrition_mirror_total:
  assumes "read_csv file_path = Inr df" and "''Attrition'' \<in> set (columns df)"
  shows "\<exists>df'. load_data read_csv file_path = Inr ([], Some df') \<and>
     length (rows df') = length (rows df) \<and>
     rows df' =
       map (\<lambda>r. r\<lparr>AttritionNumeric := (if Attrition r = Some ''Yes'' then 1 else 0)\<rparr>) (rows df) \<and>
     (\<forall>i < length (rows df).
        Attrition (rows df' ! i) = Attrition (rows df ! i) \<and>
        (AttritionNumeric (rows df' ! i) = 1 \<longleftrightarrow> Attrition (rows df ! i) = Some ''Yes'') \<and>
        (AttritionNumeric (rows df' ! i) = 0 \<longleftrightarrow> Attrition (rows df ! i) \<noteq> Some ''Yes''))"
proof -
  let ?df' = "set_AttritionNumeric df (map attrition_numeric (map Attrition (rows df)))"
  have "rows ?df' =
      map (\<lambda>r. r\<lparr>AttritionNumeric := (if Attrition r = Some ''Yes'' then 1 else 0)\<rparr>) (rows df)"
    by (rule set_AttritionNumeric_rows)
  then show ?thesis
    using load_data_table [of read_csv file_path df] assms by simp
qed

theorem C10_attrition_mirror_total_witness:
  "load_data read_example ''mock_imved_tech_data.csv'' =
     Inr ([], Some \<lparr>columns = required_columns @ [''Age'', ''AttritionNumeric''],
                    dtypes = example_dtypes(''AttritionNumeric'' := Int64),
                    rows = [emp1\<lparr>Attrition := Some ''yes''\<rparr>, emp2, emp3]\<rparr>)"
proof -
  have a: "read_example ''mock_imved_tech_data.csv'' = Inr example_file"
    by (simp add: read_example_def)
  have b: "''Attrition'' \<in> set (columns example_file)"
    by (simp add: example_file_def required_columns_def)
  obtain df' where "load_data read_example ''mock_imved_tech_data.csv'' = Inr ([], Some df')"
    using C10_attrition_mirror_total
      [of read_example "''mock_imved_tech_data.csv''" example_file] a b
    by blast
  then show ?thesis
    using a by (simp add: load_data_def getitem_def set_AttritionNumeric_def example_file_def
        required_columns_def attrition_numeric_def emp1_def emp2_def emp3_def)
qed

lemma load_data_cases:
  "load_data read_csv file_path =
     (case read_csv file_path of
        Inl e \<Rightarrow>
          (if e = FileNotFoundError
           then Inr ([Error (''Error: The file '' @ [CHR 0x27] @ file_path @ [CHR 0x27] @
                             '' was not found.''),
                      Info ''Please ensure the CSV file is in the same directory as the script.''],
                     None)
           else Inl e)
      | Inr df \<Rightarrow>
          (if ''Attrition'' \<in> set (columns df)
           then Inr ([], Some (set_AttritionNumeric df
                                 (map attrition_numeric (map Attrition (rows df)))))
           else Inl (KeyError ''Attrition'')))"
  by (simp add: load_data_def getitem_def split: sum.splits exn.splits)

text \<open>
  C4 (as amended). The start of the script stops with an error message and a hint when
  the file is missing, and ends with the exception when pandas cannot read the file or
  the file has no attrition column; in these cases the loader produces no table and the
  script does not go on. In every other case, whatever other columns the file lacks, the
  loader returns a table and the script goes on with it.
\<close>

theorem C4_load_fails_explicitly:
  "start read_csv =
     (case read_csv ''mock_imved_tech_data.csv'' of
        Inl e \<Rightarrow>
          (if e = FileNotFoundError
           then Stopped
                  [Error (''Error: The file '' @ [CHR 0x27] @ ''mock_imved_tech_data.csv'' @
                          [CHR 0x27] @ '' was not found.''),
                   Info ''Please ensure the CSV file is in the same directory as the script.'']
           else Raised e)
      | Inr df \<Rightarrow>
          (if ''Attrition'' \<in> set (columns df)
           then Running (set_AttritionNumeric df
                           (map attrition_numeric (map Attrition (rows df))))
           else Raised (KeyError ''Attrition''))) \<and>
   ((\<exists>shown df'. load_data read_csv file_path = Inr (shown, Some df')) \<longleftrightarrow>
      (\<exists>df. read_csv file_path = Inr df \<and> ''Attrition'' \<in> set (columns df))) \<and>
   ((\<exists>df'. start read_csv = Running df') \<longleftrightarrow>
      (\<exists>shown df'. load_data read_csv ''mock_imved_tech_data.csv'' = Inr (shown, Some df')))"
proof -
  have a: "start read_csv =
     (case read_csv ''mock_imved_tech_data.csv'' of
        Inl e \<Rightarrow>
          (if e = FileNotFoundError
           then Stopped
                  [Error (''Error: The file '' @ [CHR 0x27] @ ''mock_imved_tech_data.csv'' @
                          [CHR 0x27] @ '' was not found.''),
                   Info ''Please ensure the CSV file is in the same directory as the script.'']
           else Raised e)
      | Inr df \<Rightarrow>
          (if ''Attrition'' \<in> set (columns df)
           then Running (set_AttritionNumeric df
                           (map attrition_numeric (map Attrition (rows df))))
           else Raised (KeyError ''Attrition'')))"
    unfolding start_def load_data_cases by (simp split: sum.splits)
  have b: "(\<exists>shown df'. load_data read_csv file_path = Inr (shown, Some df')) \<longleftrightarrow>
      (\<exists>df. read_csv file_path = Inr df \<and> ''Attrition'' \<in> set (columns df))"
    unfolding load_data_cases by (auto split: sum.splits)
  have c: "(\<exists>df'. start read_csv = Running df') \<longleftrightarrow>
      (\<exists>shown df'. load_data read_csv ''mock_imved_tech_data.csv'' = Inr (shown, Some df'))"
    unfolding start_def by (auto split: sum.splits option.splits prod.splits)
  from a b c show ?thesis by blast
qed

text \<open>
  A file without the department column, which the specification requires, is loaded: the
  loader returns its table with the numeric attrition added, and the script goes on.
\<close>

theorem C4_counterexample:
  "''Department'' \<in> set required_columns \<and>
   ''Department'' \<notin> set (columns file_without_department) \<and>
   load_data read_without_department ''mock_imved_tech_data.csv'' =
     Inr ([], Some \<lparr>columns = columns file_without_department @ [''AttritionNumeric''],
                    dtypes = example_dtypes(''AttritionNumeric'' := Int64),
                    rows = rows file_without_department\<rparr>) \<and>
   start read_without_department =
     Running \<lparr>columns = columns file_without_department @ [''AttritionNumeric''],
              dtypes = example_dtypes(''AttritionNumeric'' := Int64),
              rows = rows file_without_department\<rparr>"
  by (simp add: start_def load_data_def getitem_def set_AttritionNumeric_def
      read_without_department_def file_without_department_def required_columns_def
      attrition_numeric_def emp2_def)

section \<open>Groups by department and attrition\<close>

lemma length_group_keys:
  "length (group_keys view) =
     length (filter (\<lambda>r. Department r \<noteq> None \<and> Attrition r \<noteq> None) view)"
  unfolding group_keys_def
  by (induction view) (auto split: option.splits)

lemma count_group_keys:
  "count_list (group_keys view) (d, a) =
     length (filter (\<lambda>r. Department r = Some d \<and> Attrition r = Some a) view)"
  unfolding group_keys_def
  by (induction view) (auto split: option.splits)

lemma sum_groupby_size: "sum_list (map snd (groupby_size keys)) = length keys"
proof -
  have "sum_list (map snd (groupby_size keys)) =
      sum_list (map (count_list keys) (sort (remdups keys)))"
    by (simp add: groupby_size_def comp_def)
  also have "\<dots> = sum (count_list keys) (set (sort (remdups keys)))"
    by (rule sum_list_distinct_conv_sum_set) simp
  also have "\<dots> = length keys"
    by (simp add: sum_count_set)
  finally show ?thesis .
qed

lemma groupby_size_mem:
  "(k, n) \<in> set (groupby_size keys) \<longleftrightarrow> k \<in> set keys \<and> n = count_list keys k"
  by (auto simp: groupby_size_def)

lemma count_list_positive: "0 < count_list xs x \<longleftrightarrow> x \<in> set xs"
  using count_list_0_iff [of xs x] by auto

lemma groupby_size_positive: "g \<in> set (groupby_size keys) \<Longrightarrow> 0 < snd g"
  by (cases g) (auto simp: groupby_size_mem count_list_positive)

lemma groupby_size_distinct: "distinct (map fst (groupby_size keys))"
  by (simp add: groupby_size_def comp_def)

lemma groupby_size_sorted: "sorted (map fst (groupby_size keys))"
  by (simp add: groupby_size_def comp_def)

text \<open>
  Filtered Views of the example table: the whole table under the default selection, which
  the sidebar returns on a fresh session, and the views of three narrower selections.
\<close>

lemma example_default_view:
  "sidebar (rows example_table) no_state =
     Inr ([Some ''Technology'', Some ''Sales''], [Some ''Pune'', Some ''Delhi'', Some ''Mumbai''],
          (3, 7)) \<and>
   filtered_df (rows example_table) [Some ''Technology'', Some ''Sales'']
     [Some ''Pune'', Some ''Delhi'', Some ''Mumbai''] (3, 7) = [emp1, emp2, emp3]"
proof -
  have "exp_range [emp1, emp2, emp3] = Inr (3, 7)"
    by (simp add: exp_range_def series_min_def series_max_def py_int_def emp1_def emp2_def
        emp3_def)
  then have "sidebar (rows example_table) no_state =
     Inr ([Some ''Technology'', Some ''Sales''], [Some ''Pune'', Some ''Delhi'', Some ''Mumbai''],
          (3, 7))"
    by (simp add: sidebar_def example_table_def no_state_def slider_def js_safe_def)
      (simp add: emp1_def emp2_def emp3_def)
  moreover have "filtered_df (rows example_table) [Some ''Technology'', Some ''Sales'']
     [Some ''Pune'', Some ''Delhi'', Some ''Mumbai''] (3, 7) = [emp1, emp2, emp3]"
    by (simp add: filtered_df_filter example_table_def in_view_def emp1_def emp2_def emp3_def)
  ultimately show ?thesis by simp
qed

lemma example_two_cities_view:
  "filtered_df (rows example_table) [Some ''Technology'', Some ''Sales'']
     [Some ''Pune'', Some ''Delhi''] (3, 7) = [emp1, emp2]"
  by (simp add: filtered_df_filter example_table_def in_view_def emp1_def emp2_def emp3_def)


lemma example_technology_view:
  "filtered_df (rows example_table) [Some ''Technology'']
     [Some ''Pune'', Some ''Delhi'', Some ''Mumbai''] (3, 7) = [emp1]"
  by (simp add: filtered_df_filter example_table_def in_view_def emp1_def emp2_def emp3_def)

text \<open>
  C5 (as amended). For every Filtered View the aggregation by department and attrition
  flag has one line for each pair that occurs in a row that has both a department and a
  flag, with the number of rows that have the pair: every count is positive, no pair
  occurs twice, and the counts add up to the number of rows in which neither the
  department nor the flag is missing, which is the total number of rows when none is
  missing.
\<close>

theorem C5_group_counts:
  "sum_list (map snd (attrition_dept view)) =
     length (filter (\<lambda>r. Department r \<noteq> None \<and> Attrition r \<noteq> None) view) \<and>
   (\<forall>g \<in> set (attrition_dept view). 0 < snd g) \<and>
   distinct (map fst (attrition_dept view)) \<and>
   (((d, a), n) \<in> set (attrition_dept view) \<longleftrightarrow>
      0 < n \<and> n = length (filter (\<lambda>r. Department r = Some d \<and> Attrition r = Some a) view)) \<and>
   ((\<forall>r \<in> set view. Department r \<noteq> None \<and> Attrition r \<noteq> None) \<longrightarrow>
      int (sum_list (map snd (attrition_dept view))) = total_employees view)"
proof -
  have total: "sum_list (map snd (attrition_dept view)) =
      length (filter (\<lambda>r. Department r \<noteq> None \<and> Attrition r \<noteq> None) view)"
    by (simp add: attrition_dept_def sum_groupby_size length_group_keys)
  have pos: "\<forall>g \<in> set (attrition_dept view). 0 < snd g"
    by (simp add: attrition_dept_def groupby_size_positive)
  have dist: "distinct (map fst (attrition_dept view))"
    by (simp add: attrition_dept_def groupby_size_distinct)
  have mem: "((d, a), n) \<in> set (attrition_dept view) \<longleftrightarrow>
      0 < n \<and> n = length (filter (\<lambda>r. Department r = Some d \<and> Attrition r = Some a) view)"
    unfolding attrition_dept_def groupby_size_mem count_group_keys [symmetric]
    by (auto simp: count_list_positive)
  have full: "int (sum_list (map snd (attrition_dept view))) = total_employees view"
    if "\<forall>r \<in> set view. Department r \<noteq> None \<and> Attrition r \<noteq> None"
  proof -
    have "filter (\<lambda>r. Department r \<noteq> None \<and> Attrition r \<noteq> None) view = view"
      using that by (simp add: filter_id_conv)
    then show ?thesis by (simp add: total total_employees_def)
  qed
  show ?thesis
    using total pos dist mem full by blast
qed

theorem C5_group_counts_witness:
  "filtered_df (rows example_table) [Some ''Technology'', Some ''Sales'']
     [Some ''Pune'', Some ''Delhi''] (3, 7) = [emp1, emp2] \<and>
   sum_list (map snd (attrition_dept [emp1, emp2])) = 2 \<and>
   total_employees [emp1, emp2] = 2 \<and>
   ((''Sales'', ''Yes''), 1) \<in> set (attrition_dept [emp1, emp2])"
proof -
  have "\<forall>r \<in> set [emp1, emp2]. Department r \<noteq> None \<and> Attrition r \<noteq> None"
    by (simp add: emp1_def emp2_def)
  then show ?thesis
    using C5_group_counts [of "[emp1, emp2]" "''Sales''" "''Yes''" 1]
    by (simp add: example_two_cities_view total_employees_def emp1_def emp2_def)
qed

text \<open>
  A row with a missing attrition flag is in no group. The example table is its own
  Filtered View under the default selection; it has three rows, one of them without a
  flag, and its counts add up to 2.
\<close>

theorem C5_counterexample:
  "sidebar (rows example_table) no_state =
     Inr ([Some ''Technology'', Some ''Sales''], [Some ''Pune'', Some ''Delhi'', Some ''Mumbai''],
          (3, 7)) \<and>
   filtered_df (rows example_table) [Some ''Technology'', Some ''Sales'']
     [Some ''Pune'', Some ''Delhi'', Some ''Mumbai''] (3, 7) = [emp1, emp2, emp3] \<and>
   sum_list (map snd (attrition_dept [emp1, emp2, emp3])) = 2 \<and>
   total_employees [emp1, emp2, emp3] = 3"
  by (simp add: example_default_view attrition_dept_def sum_groupby_size length_group_keys
      total_employees_def emp1_def emp2_def emp3_def)

text \<open>
  A row with a missing department is in no group either.
\<close>

lemma group_counts_missing_department:
  "sum_list (map snd (attrition_dept [emp1, emp2\<lparr>Department := None\<rparr>])) = 1 \<and>
   total_employees [emp1, emp2\<lparr>Department := None\<rparr>] = 2"
  by (simp add: attrition_dept_def sum_groupby_size length_group_keys total_employees_def
      emp1_def emp2_def)

section \<open>The correlation of two columns\<close>

text \<open>
  The inequality of Cauchy and Schwarz for sums over a list, from the sum of the squares
  of \<open>t * f z - g z\<close>, which is not negative for any \<open>t\<close>.
\<close>

lemma sum_list_quadratic:
  "sum_list (map (\<lambda>z. (t * f z - g z) ^ 2) l) =
     t ^ 2 * sum_list (map (\<lambda>z. (f z) ^ 2) l) - 2 * t * sum_list (map (\<lambda>z. f z * g z) l) +
     sum_list (map (\<lambda>z. (g z) ^ 2) l)"
  for f g :: "'a \<Rightarrow> real"
  by (induction l) (simp_all add: algebra_simps power2_eq_square)

lemma sum_list_squares_nonneg: "0 \<le> sum_list (map (\<lambda>z. (f z) ^ 2) l)"
  for f :: "'a \<Rightarrow> real"
  by (rule sum_list_nonneg) auto

lemma sum_list_squares_zero:
  "sum_list (map (\<lambda>z. (f z) ^ 2) l) = 0 \<longleftrightarrow> (\<forall>z \<in> set l. f z = 0)"
  for f :: "'a \<Rightarrow> real"
  by (induction l) (auto simp: add_nonneg_eq_0_iff sum_list_squares_nonneg)

lemma cauchy_schwarz_list:
  "(sum_list (map (\<lambda>z. f z * g z) l)) ^ 2 \<le>
     sum_list (map (\<lambda>z. (f z) ^ 2) l) * sum_list (map (\<lambda>z. (g z) ^ 2) l)"
  for f g :: "'a \<Rightarrow> real"
proof -
  let ?A = "sum_list (map (\<lambda>z. (f z) ^ 2) l)"
  let ?B = "sum_list (map (\<lambda>z. f z * g z) l)"
  let ?C = "sum_list (map (\<lambda>z. (g z) ^ 2) l)"
  show ?thesis
  proof (cases "?A = 0")
    case True
    then have "\<forall>z \<in> set l. f z = 0" by (simp add: sum_list_squares_zero)
    then have "map (\<lambda>z. f z * g z) l = map (\<lambda>z. 0) l" by (intro map_cong) simp_all
    then have "?B = 0" by (simp only: sum_list_0)
    then show ?thesis using True by simp
  next
    case False
    then have A: "0 < ?A" using sum_list_squares_nonneg [of f l] by simp
    have "0 \<le> sum_list (map (\<lambda>z. (?B / ?A * f z - g z) ^ 2) l)"
      by (rule sum_list_squares_nonneg)
    then have "0 \<le> (?B / ?A) ^ 2 * ?A - 2 * (?B / ?A) * ?B + ?C"
      by (simp only: sum_list_quadratic)
    also have "(?B / ?A) ^ 2 * ?A - 2 * (?B / ?A) * ?B + ?C = ?C - ?B ^ 2 / ?A"
      using A by (simp add: power2_eq_square field_simps)
    finally have "?B ^ 2 / ?A \<le> ?C" by simp
    then have "?B ^ 2 \<le> ?C * ?A" using A by (simp add: pos_divide_le_eq)
    then show ?thesis by (simp add: mult.commute)
  qed
qed

text \<open>
  The correlation of two columns is NaN or lies between -1 and 1; it does not depend on
  the order of the two columns; and the correlation of a column with itself is 1 when the
  column has two different values, and NaN otherwise.
\<close>

lemma pearson_cases:
  "pearson xs ys = NaN \<or> (\<exists>r. pearson xs ys = Val r \<and> - 1 \<le> r \<and> r \<le> 1)"
proof -
  define ps where "ps = complete_pairs xs ys"
  define mx where "mx = mean (map fst ps)"
  define my where "my = mean (map snd ps)"
  define f where "f = (\<lambda>z :: real \<times> real. fst z - mx)"
  define g where "g = (\<lambda>z :: real \<times> real. snd z - my)"
  define sxx where "sxx = sum_list (map (\<lambda>z. (f z) ^ 2) ps)"
  define syy where "syy = sum_list (map (\<lambda>z. (g z) ^ 2) ps)"
  define sxy where "sxy = sum_list (map (\<lambda>z. f z * g z) ps)"
  have p: "pearson xs ys = (if sxx * syy = 0 then NaN else Val (sxy / sqrt (sxx * syy)))"
    by (simp add: pearson_def Let_def ps_def mx_def my_def f_def g_def sxx_def syy_def sxy_def
        case_prod_unfold)
  show ?thesis
  proof (cases "sxx * syy = 0")
    case True
    then show ?thesis by (simp add: p)
  next
    case False
    have nn: "0 \<le> sxx * syy"
      unfolding sxx_def syy_def by (intro mult_nonneg_nonneg sum_list_squares_nonneg)
    then have "0 < sxx * syy" using False by linarith
    then have pos: "0 < sqrt (sxx * syy)" by simp
    have "sxy ^ 2 \<le> sxx * syy"
      unfolding sxx_def syy_def sxy_def by (rule cauchy_schwarz_list)
    then have "sqrt (sxy ^ 2) \<le> sqrt (sxx * syy)" by (rule real_sqrt_le_mono)
    then have "\<bar>sxy\<bar> \<le> sqrt (sxx * syy)" by (simp only: real_sqrt_abs)
    then have "- sqrt (sxx * syy) \<le> sxy" "sxy \<le> sqrt (sxx * syy)" by linarith+
    then have "- 1 \<le> sxy / sqrt (sxx * syy)" "sxy / sqrt (sxx * syy) \<le> 1"
      using pos by (simp_all add: pos_le_divide_eq pos_divide_le_eq)
    then show ?thesis using False by (simp add: p)
  qed
qed

lemma complete_pairs_swap:
  "complete_pairs ys xs = map (\<lambda>(x, y). (y, x)) (complete_pairs xs ys)"
  by (induction xs ys rule: complete_pairs.induct) auto

lemma pearson_sym: "pearson xs ys = pearson ys xs"
  by (simp add: pearson_def Let_def complete_pairs_swap [of ys xs] comp_def case_prod_unfold
      mult.commute)

lemma complete_pairs_same: "complete_pairs xs xs = map (\<lambda>x. (x, x)) (dropna xs)"
  by (induction xs rule: dropna.induct) auto

lemma mean_constant:
  assumes "vs \<noteq> []" and "\<forall>x \<in> set vs. x = c"
  shows "mean vs = c"
proof -
  have "map (\<lambda>x. x) vs = map (\<lambda>x. c) vs" using assms(2) by (intro map_cong) simp_all
  then have "sum_list vs = sum_list (map (\<lambda>x. c) vs)" by (simp only: map_ident)
  then have "sum_list vs = real (length vs) * c" by (simp add: sum_list_triv)
  then show ?thesis using assms(1) by (simp add: mean_def)
qed

lemma deviations_zero:
  "sum_list (map (\<lambda>x. (x - mean vs) ^ 2) vs) = 0 \<longleftrightarrow> (\<forall>x \<in> set vs. \<forall>y \<in> set vs. x = y)"
proof
  assume "sum_list (map (\<lambda>x. (x - mean vs) ^ 2) vs) = 0"
  then have "\<forall>x \<in> set vs. x = mean vs" by (simp add: sum_list_squares_zero)
  then show "\<forall>x \<in> set vs. \<forall>y \<in> set vs. x = y" by metis
next
  assume eq: "\<forall>x \<in> set vs. \<forall>y \<in> set vs. x = y"
  show "sum_list (map (\<lambda>x. (x - mean vs) ^ 2) vs) = 0"
  proof (cases vs)
    case Nil
    then show ?thesis by simp
  next
    case (Cons c cs)
    then have "\<forall>x \<in> set vs. x = c" using eq by auto
    moreover have "vs \<noteq> []" using Cons by simp
    ultimately have "mean vs = c" by (rule mean_constant [rotated])
    then show ?thesis using \<open>\<forall>x \<in> set vs. x = c\<close> by (simp add: sum_list_squares_zero)
  qed
qed

lemma pearson_diagonal:
  "pearson xs xs = (if \<forall>x \<in> set (dropna xs). \<forall>y \<in> set (dropna xs). x = y then NaN else Val 1)"
proof -
  let ?vs = "dropna xs"
  let ?S = "sum_list (map (\<lambda>x. (x - mean ?vs) ^ 2) ?vs)"
  have nn: "0 \<le> ?S" by (rule sum_list_squares_nonneg)
  have m: "map fst (map (\<lambda>x. (x, x)) ?vs) = ?vs" "map snd (map (\<lambda>x. (x, x)) ?vs) = ?vs"
    by (simp_all add: comp_def)
  have p: "pearson xs xs = (if ?S * ?S = 0 then NaN else Val (?S / sqrt (?S * ?S)))"
    unfolding pearson_def Let_def complete_pairs_same m
    by (simp add: comp_def power2_eq_square)
  show ?thesis
  proof (cases "?S = 0")
    case True
    then show ?thesis using deviations_zero [of ?vs] by (simp add: p)
  next
    case False
    then have "sqrt (?S * ?S) = ?S" using nn by simp
    then show ?thesis using False deviations_zero [of ?vs] by (simp add: p)
  qed
qed

section \<open>The page on an empty view\<close>








section \<open>The correlation panel and its matrix\<close>



text \<open>
  The options of the example table: the age, a numeric column outside the data model, is
  among them and in the default selection.
\<close>

lemma example_options:
  "numerical_cols example_table =
     [''EmployeeID'', ''YearsOfExperience'', ''SalaryINR'', ''Age'', ''AttritionNumeric''] \<and>
   default_cols (numerical_cols example_table) = [''YearsOfExperience'', ''SalaryINR'', ''Age'']"
  by (simp add: numerical_cols_def default_cols_def example_table_def required_columns_def
      example_dtypes_def is_number_def)


lemma corr_entry:
  assumes "i < length selected_cols" and "j < length selected_cols"
  shows "corr view selected_cols ! i ! j =
     pearson (numeric_column view (selected_cols ! i)) (numeric_column view (selected_cols ! j))"
  using assms by (simp add: corr_def)

lemma two_values:
  "(\<forall>x \<in> set (dropna xs). \<forall>y \<in> set (dropna xs). x = y) \<longleftrightarrow>
     \<not> (\<exists>x y. Some x \<in> set xs \<and> Some y \<in> set xs \<and> x \<noteq> y)"
  by (auto simp: set_dropna)

text \<open>
  C8 (as amended). For every Filtered View and every selection of columns, the correlation
  matrix has one line and one column for each selected column and is symmetric; an entry
  on the diagonal is 1 when its column has two different values in the view and NaN
  otherwise; and every entry is NaN or lies between -1 and 1.
\<close>

theorem C8_correlation_matrix:
  assumes "i < length selected_cols" and "j < length selected_cols"
  shows "length (corr view selected_cols) = length selected_cols \<and>
     length (corr view selected_cols ! i) = length selected_cols \<and>
     corr view selected_cols ! i ! j = corr view selected_cols ! j ! i \<and>
     corr view selected_cols ! i ! i =
       (if \<exists>x y. Some x \<in> set (numeric_column view (selected_cols ! i)) \<and>
                  Some y \<in> set (numeric_column view (selected_cols ! i)) \<and> x \<noteq> y
        then Val 1 else NaN) \<and>
     (corr view selected_cols ! i ! j = NaN \<or>
      (\<exists>r. corr view selected_cols ! i ! j = Val r \<and> - 1 \<le> r \<and> r \<le> 1))"
proof -
  have len: "length (corr view selected_cols) = length selected_cols"
    "length (corr view selected_cols ! i) = length selected_cols"
    using assms by (simp_all add: corr_def)
  have sym: "corr view selected_cols ! i ! j = corr view selected_cols ! j ! i"
    using assms by (simp add: corr_entry pearson_sym)
  have diag: "corr view selected_cols ! i ! i =
       (if \<exists>x y. Some x \<in> set (numeric_column view (selected_cols ! i)) \<and>
                  Some y \<in> set (numeric_column view (selected_cols ! i)) \<and> x \<noteq> y
        then Val 1 else NaN)"
    using assms(1) by (simp only: corr_entry pearson_diagonal two_values) simp
  have range: "corr view selected_cols ! i ! j = NaN \<or>
      (\<exists>r. corr view selected_cols ! i ! j = Val r \<and> - 1 \<le> r \<and> r \<le> 1)"
    using assms by (simp only: corr_entry pearson_cases)
  show ?thesis
    using len sym diag range by blast
qed

theorem C8_correlation_matrix_witness:
  "filtered_df (rows example_table) [Some ''Technology'', Some ''Sales'']
     [Some ''Pune'', Some ''Delhi'', Some ''Mumbai''] (3, 7) = [emp1, emp2, emp3] \<and>
   corr [emp1, emp2, emp3] [''YearsOfExperience'', ''SalaryINR''] ! 0 ! 0 = Val 1 \<and>
   corr [emp1, emp2, emp3] [''YearsOfExperience'', ''SalaryINR''] ! 0 ! 1 =
     corr [emp1, emp2, emp3] [''YearsOfExperience'', ''SalaryINR''] ! 1 ! 0"
proof -
  have "Some 3 \<in> set (numeric_column [emp1, emp2, emp3] ''YearsOfExperience'') \<and>
      Some 7 \<in> set (numeric_column [emp1, emp2, emp3] ''YearsOfExperience'') \<and> (3::real) \<noteq> 7"
    by (simp add: numeric_column_def number_def emp1_def emp2_def)
  then have two: "\<exists>x y. Some x \<in> set (numeric_column [emp1, emp2, emp3] ''YearsOfExperience'') \<and>
      Some y \<in> set (numeric_column [emp1, emp2, emp3] ''YearsOfExperience'') \<and> x \<noteq> y"
    by blast
  have i: "(0::nat) < length [''YearsOfExperience'', ''SalaryINR'']"
    and j: "(1::nat) < length [''YearsOfExperience'', ''SalaryINR'']"
    by simp_all
  show ?thesis
    using C8_correlation_matrix [OF i j, of "[emp1, emp2, emp3]"] two
    by (simp add: example_default_view)
qed

text \<open>
  The rows of the department Technology are a Filtered View of the example table with a
  single row: the correlation of the salary with itself is NaN there, not 1.
\<close>

theorem C8_counterexample:
  "filtered_df (rows example_table) [Some ''Technology'']
     [Some ''Pune'', Some ''Delhi'', Some ''Mumbai''] (3, 7) = [emp1] \<and>
   ''SalaryINR'' \<in> set (numerical_cols example_table) \<and>
   correlation (example_table\<lparr>rows := [emp1]\<rparr>) (Some [''SalaryINR'']) =
     Heatmap [''SalaryINR''] [[NaN]]"
proof -
  have "pearson [SalaryINR emp1] [SalaryINR emp1] = NaN"
    by (simp add: pearson_diagonal emp1_def)
  then have "correlation (example_table\<lparr>rows := [emp1]\<rparr>) (Some [''SalaryINR'']) =
     Heatmap [''SalaryINR''] [[NaN]]"
    by (simp add: correlation_def multiselect_def corr_def numeric_column_def number_def
        numerical_cols_def example_table_def required_columns_def example_dtypes_def
        is_number_def)
  then show ?thesis
    by (simp add: example_technology_view example_options)
qed

end
